theory Spec2Isabelle
  imports Main
begin

section \<open>Data model (package state, types)\<close>

text \<open>
  The persisted aggregate and its parts, field by field as the Go structs declare them.
  A timestamp (\<open>*time.Time\<close>) is an optional natural number. The cluster map is a Go map,
  which may be nil: \<open>None\<close> is the nil map, \<open>Some m\<close> an allocated one. Reading a nil map
  and deleting from it are harmless in Go, assigning into it panics.
  Where two structs share a field name the later record carries a suffix.
\<close>

type_synonym time = nat

record ClusterInfo =
  Status :: string
  Created :: "time option"
  Type :: string
  KubeVirt :: bool

record HostState =
  Initialized :: bool
  InitializedAt :: "time option"
  InstanceType :: string
  StorageType :: string
  StorageDevice :: string
  PackagesInstalled :: bool
  BaseClusterReady :: bool
  RegistryRunning :: bool
  Clusters :: "(string \<rightharpoonup> ClusterInfo) option"

record StorageConfig =
  HasNVMe :: bool
  Device :: string
  Type_sc :: string

record ClusterCreateRequest =
  Name :: string
  KubeVirt_req :: bool

record ClusterResponse =
  Name_resp :: string
  Status_resp :: string
  Created_resp :: "time option"
  Type_resp :: string
  KubeVirt_resp :: bool

text \<open>The zero value of \<open>HostState\<close> (\<open>var state HostState\<close>).\<close>

definition zero_HostState :: HostState where
  "zero_HostState =
     \<lparr>Initialized = False, InitializedAt = None, InstanceType = [], StorageType = [],
      StorageDevice = [], PackagesInstalled = False, BaseClusterReady = False,
      RegistryRunning = False, Clusters = None\<rparr>"

section \<open>The world outside the process\<close>

text \<open>
  The state file holds bytes. What matters of them is what \<open>json.Unmarshal\<close> makes of
  them: \<open>Garbage\<close> does not decode, \<open>Json s\<close> decodes to \<open>s\<close>, and \<open>json.MarshalIndent\<close>
  of \<open>s\<close> produces \<open>Json s\<close>. The file itself is absent (\<open>None\<close>) or present.

  \<open>ioutil.WriteFile\<close> opens the file truncating it and then writes: it succeeds, or
  fails before the file was touched, or fails after the truncation and leaves bytes
  that do not decode.
\<close>

datatype bytes = Garbage | Json HostState

datatype wres = Written | OpenFailed | Truncated

text \<open>
  Every call that leaves the process is an event of the trace: the detectors and
  installers of package host, the operations of the kind client that the core uses,
  and each write of the state file with its outcome.
\<close>

datatype call =
    DetectStorage
  | GetInstanceType
  | InstallPackages
  | SetupNVMeStorage string
  | SetupDefaultStorage
  | KindCreateRegistry
  | KindCreateCluster string bool
  | KindDeleteCluster string
  | KindGetKubeconfig string
  | KindLoadImage string string
  | WriteStateFile HostState wres

datatype error =
    NotExist
  | ReadFailure
  | SyntaxError
  | MarshalFailure
  | WriteFailure
  | ToolFailure call
  | Wrap string error

text \<open>A Go call returns normally, returns an error, or panics.\<close>

datatype 'a result = Ok 'a | Err error | Panic

datatype logline = Println string | PrintErr string error

record world =
  disk :: "bytes option"
  trace :: "call list"
  logs :: "logline list"

text \<open>
  The environment decides what the program does not: whether an external call fails,
  given the calls made so far, what the detectors find, and the time.
\<close>

record env =
  tool_fails :: "call list \<Rightarrow> call \<Rightarrow> bool"
  read_fails :: "call list \<Rightarrow> bool"
  marshal_fails :: "HostState \<Rightarrow> bool"
  write_result :: "call list \<Rightarrow> HostState \<Rightarrow> wres"
  storage_found :: StorageConfig
  instance_type :: string
  kubeconfig :: "string \<Rightarrow> string"
  now :: "call list \<Rightarrow> time"

definition log_Println :: "string \<Rightarrow> world \<Rightarrow> world" where
  "log_Println msg w = w\<lparr>logs := logs w @ [Println msg]\<rparr>"

definition log_PrintErr :: "string \<Rightarrow> error \<Rightarrow> world \<Rightarrow> world" where
  "log_PrintErr msg err w = w\<lparr>logs := logs w @ [PrintErr msg err]\<rparr>"

text \<open>An external command: the call is recorded, the environment says whether it failed.\<close>

definition run_tool :: "env \<Rightarrow> call \<Rightarrow> world \<Rightarrow> error option \<times> world" where
  "run_tool e c w =
     (if tool_fails e (trace w) c then Some (ToolFailure c) else None,
      w\<lparr>trace := trace w @ [c]\<rparr>)"

definition ReadFile :: "env \<Rightarrow> world \<Rightarrow> error + bytes" where
  "ReadFile e w =
     (case disk w of
        None \<Rightarrow> Inl NotExist
      | Some b \<Rightarrow> if read_fails e (trace w) then Inl ReadFailure else Inr b)"

definition WriteFile :: "env \<Rightarrow> HostState \<Rightarrow> world \<Rightarrow> error option \<times> world" where
  "WriteFile e s w =
     (case write_result e (trace w) s of
        Written \<Rightarrow>
          (None, w\<lparr>disk := Some (Json s), trace := trace w @ [WriteStateFile s Written]\<rparr>)
      | OpenFailed \<Rightarrow>
          (Some WriteFailure, w\<lparr>trace := trace w @ [WriteStateFile s OpenFailed]\<rparr>)
      | Truncated \<Rightarrow>
          (Some WriteFailure,
           w\<lparr>disk := Some Garbage, trace := trace w @ [WriteStateFile s Truncated]\<rparr>))"

definition Unmarshal :: "bytes \<Rightarrow> error + HostState" where
  "Unmarshal b = (case b of Garbage \<Rightarrow> Inl SyntaxError | Json s \<Rightarrow> Inr s)"

section \<open>State Store (package state, Manager)\<close>

fun IsNotExist :: "error \<Rightarrow> bool" where
  "IsNotExist NotExist = True"
| "IsNotExist err = False"

definition Load :: "env \<Rightarrow> world \<Rightarrow> error + HostState" where
  "Load e w =
     (case ReadFile e w of
        Inl err \<Rightarrow>
          if IsNotExist err
          then Inr (zero_HostState\<lparr>Initialized := False, Clusters := Some Map.empty\<rparr>)
          else Inl (Wrap ''failed to read state file'' err)
      | Inr data \<Rightarrow>
          (case Unmarshal data of
             Inl err \<Rightarrow> Inl (Wrap ''failed to parse state file'' err)
           | Inr state \<Rightarrow>
               Inr (case Clusters state of
                      None \<Rightarrow> state\<lparr>Clusters := Some Map.empty\<rparr>
                    | Some m \<Rightarrow> state)))"

definition Save :: "env \<Rightarrow> HostState \<Rightarrow> world \<Rightarrow> unit result \<times> world" where
  "Save e state w =
     (if marshal_fails e state
      then (Err (Wrap ''failed to marshal state'' MarshalFailure), w)
      else case WriteFile e state w of
             (Some err, w') \<Rightarrow> (Err (Wrap ''failed to write state file'' err), w')
           | (None, w') \<Rightarrow> (Ok (), w'))"

definition MarkInitialized ::
  "env \<Rightarrow> string \<Rightarrow> string \<Rightarrow> string \<Rightarrow> world \<Rightarrow> unit result \<times> world" where
  "MarkInitialized e instanceType storageType storageDevice w =
     (case Load e w of
        Inl err \<Rightarrow> (Err err, w)
      | Inr state \<Rightarrow>
          Save e (state\<lparr>Initialized := True,
                         InitializedAt := Some (now e (trace w)),
                         InstanceType := instanceType,
                         StorageType := storageType,
                         StorageDevice := storageDevice,
                         PackagesInstalled := True\<rparr>) w)"

definition UpdateCluster ::
  "env \<Rightarrow> string \<Rightarrow> string \<Rightarrow> string \<Rightarrow> bool \<Rightarrow> world \<Rightarrow> unit result \<times> world" where
  "UpdateCluster e name status clusterType kubevirt w =
     (case Load e w of
        Inl err \<Rightarrow> (Err err, w)
      | Inr state \<Rightarrow>
          (case Clusters state of
             None \<Rightarrow> (Panic, w)
           | Some m \<Rightarrow>
               Save e (state\<lparr>Clusters := Some (m(name \<mapsto>
                          \<lparr>Status = status, Created = Some (now e (trace w)),
                           Type = clusterType, KubeVirt = kubevirt\<rparr>))\<rparr>) w))"

definition RemoveCluster :: "env \<Rightarrow> string \<Rightarrow> world \<Rightarrow> unit result \<times> world" where
  "RemoveCluster e name w =
     (case Load e w of
        Inl err \<Rightarrow> (Err err, w)
      | Inr state \<Rightarrow>
          Save e (state\<lparr>Clusters := map_option (\<lambda>m. m(name := None)) (Clusters state)\<rparr>) w)"

definition SetRegistryStatus :: "env \<Rightarrow> bool \<Rightarrow> world \<Rightarrow> unit result \<times> world" where
  "SetRegistryStatus e running w =
     (case Load e w of
        Inl err \<Rightarrow> (Err err, w)
      | Inr state \<Rightarrow> Save e (state\<lparr>RegistryRunning := running\<rparr>) w)"

definition SetBaseClusterReady :: "env \<Rightarrow> world \<Rightarrow> unit result \<times> world" where
  "SetBaseClusterReady e w =
     (case Load e w of
        Inl err \<Rightarrow> (Err err, w)
      | Inr state \<Rightarrow> Save e (state\<lparr>BaseClusterReady := True\<rparr>) w)"

section \<open>Cluster Tool Adapter (package kind, Client)\<close>

text \<open>
  Each operation of the client runs external binaries and returns their error, if any.
  The core sees only that outcome, so each is one external call.
\<close>

definition CreateRegistry :: "env \<Rightarrow> world \<Rightarrow> error option \<times> world" where
  "CreateRegistry e w = run_tool e KindCreateRegistry w"

definition CreateCluster :: "env \<Rightarrow> string \<Rightarrow> bool \<Rightarrow> world \<Rightarrow> error option \<times> world" where
  "CreateCluster e name withRegistry w = run_tool e (KindCreateCluster name withRegistry) w"

definition DeleteCluster :: "env \<Rightarrow> string \<Rightarrow> world \<Rightarrow> error option \<times> world" where
  "DeleteCluster e name w = run_tool e (KindDeleteCluster name) w"

definition GetKubeconfig :: "env \<Rightarrow> string \<Rightarrow> world \<Rightarrow> (error + string) \<times> world" where
  "GetKubeconfig e name w =
     (case run_tool e (KindGetKubeconfig name) w of
        (Some err, w') \<Rightarrow> (Inl err, w')
      | (None, w') \<Rightarrow> (Inr (kubeconfig e name), w'))"

definition LoadImage :: "env \<Rightarrow> string \<Rightarrow> string \<Rightarrow> world \<Rightarrow> error option \<times> world" where
  "LoadImage e clusterName imageName w = run_tool e (KindLoadImage imageName clusterName) w"

section \<open>Host Initializer (package host)\<close>

text \<open>
  The detectors and installers of \<open>packages.go\<close> shell out to the package manager, the
  metadata service and the disk tools; each is one external call whose outcome the
  environment gives.
\<close>

definition detectStorage :: "env \<Rightarrow> world \<Rightarrow> (error + StorageConfig) \<times> world" where
  "detectStorage e w =
     (case run_tool e DetectStorage w of
        (Some err, w') \<Rightarrow> (Inl err, w')
      | (None, w') \<Rightarrow> (Inr (storage_found e), w'))"

definition getInstanceType :: "env \<Rightarrow> world \<Rightarrow> (error + string) \<times> world" where
  "getInstanceType e w =
     (case run_tool e GetInstanceType w of
        (Some err, w') \<Rightarrow> (Inl err, w')
      | (None, w') \<Rightarrow> (Inr (instance_type e), w'))"

definition installPackages :: "env \<Rightarrow> world \<Rightarrow> error option \<times> world" where
  "installPackages e w = run_tool e InstallPackages w"

definition setupNVMeStorage :: "env \<Rightarrow> string \<Rightarrow> world \<Rightarrow> error option \<times> world" where
  "setupNVMeStorage e device w = run_tool e (SetupNVMeStorage device) w"

definition setupDefaultStorage :: "env \<Rightarrow> world \<Rightarrow> error option \<times> world" where
  "setupDefaultStorage e w = run_tool e SetupDefaultStorage w"

definition configureStorage :: "env \<Rightarrow> StorageConfig \<Rightarrow> world \<Rightarrow> error option \<times> world" where
  "configureStorage e storage w =
     (if HasNVMe storage
      then setupNVMeStorage e (Device storage)
             (log_Println (''Configuring NVMe storage: '' @ Device storage) w)
      else setupDefaultStorage e (log_Println ''Configuring default storage'' w))"

definition configureSSH :: "world \<Rightarrow> error option \<times> world" where
  "configureSSH w = (None, log_Println ''SSH configuration completed (placeholder)'' w)"

definition createBaseInfrastructure :: "env \<Rightarrow> world \<Rightarrow> unit result \<times> world" where
  "createBaseInfrastructure e w =
     (case CreateRegistry e (log_Println ''Creating shared container registry...'' w) of
        (Some err, w1) \<Rightarrow> (Err (Wrap ''failed to create registry'' err), w1)
      | (None, w1) \<Rightarrow>
     (case SetRegistryStatus e True w1 of
        (Panic, w2) \<Rightarrow> (Panic, w2)
      | (Err err, w2) \<Rightarrow> (Err (Wrap ''failed to update registry status'' err), w2)
      | (Ok u, w2) \<Rightarrow>
     (case CreateCluster e ''kind'' True
             (log_Println ''Creating base infrastructure cluster...'' w2) of
        (Some err, w3) \<Rightarrow> (Err (Wrap ''failed to create base cluster'' err), w3)
      | (None, w3) \<Rightarrow>
     (case UpdateCluster e ''kind'' ''running'' ''infrastructure'' False w3 of
        (Panic, w4) \<Rightarrow> (Panic, w4)
      | (Err err, w4) \<Rightarrow> (Err (Wrap ''failed to update cluster state'' err), w4)
      | (Ok u, w4) \<Rightarrow>
     (case SetBaseClusterReady e w4 of
        (Panic, w5) \<Rightarrow> (Panic, w5)
      | (Err err, w5) \<Rightarrow> (Err (Wrap ''failed to mark base cluster ready'' err), w5)
      | (Ok u, w5) \<Rightarrow> (Ok (), w5))))))"

definition Initialize :: "env \<Rightarrow> world \<Rightarrow> unit result \<times> world" where
  "Initialize e w =
     (case detectStorage e (log_Println ''Starting host initialization...'' w) of
        (Inl err, w1) \<Rightarrow> (Err (Wrap ''failed to detect storage'' err), w1)
      | (Inr storage, w1) \<Rightarrow>
     (case (case getInstanceType e w1 of
              (Inr metaInstanceType, w2) \<Rightarrow>
                (metaInstanceType,
                 log_Println (''Detected instance type: '' @ metaInstanceType) w2)
            | (Inl err, w2) \<Rightarrow>
                (''unknown'', log_PrintErr ''Could not detect instance type'' err w2)) of
        (instanceType, w2) \<Rightarrow>
     (case installPackages e
             (log_Println ''Installing system packages...''
               (log_Println (''Storage configuration: type='' @ Type_sc storage @
                             '', device='' @ Device storage) w2)) of
        (Some err, w3) \<Rightarrow> (Err (Wrap ''failed to install packages'' err), w3)
      | (None, w3) \<Rightarrow>
     (case configureStorage e storage (log_Println ''Configuring storage...'' w3) of
        (Some err, w4) \<Rightarrow> (Err (Wrap ''failed to configure storage'' err), w4)
      | (None, w4) \<Rightarrow>
     (case configureSSH (log_Println ''Configuring SSH...'' w4) of
        (Some err, w5) \<Rightarrow> (Err (Wrap ''failed to configure SSH'' err), w5)
      | (None, w5) \<Rightarrow>
     (case createBaseInfrastructure e
             (log_Println ''Creating base infrastructure...'' w5) of
        (Panic, w6) \<Rightarrow> (Panic, w6)
      | (Err err, w6) \<Rightarrow> (Err (Wrap ''failed to create base infrastructure'' err), w6)
      | (Ok u, w6) \<Rightarrow>
     (case MarkInitialized e instanceType (Type_sc storage) (Device storage) w6 of
        (Panic, w7) \<Rightarrow> (Panic, w7)
      | (Err err, w7) \<Rightarrow> (Err (Wrap ''failed to save initialization state'' err), w7)
      | (Ok u, w7) \<Rightarrow>
          (Ok (), log_Println ''Host initialization completed successfully'' w7))))))))"

section \<open>Process start (main)\<close>

text \<open>
  The part of \<open>main\<close> between the creation of the state manager and the start of the
  HTTP server: the process either exits with status 1 or goes on to serve.
\<close>

datatype startup = Exit nat | Serve

definition main :: "env \<Rightarrow> world \<Rightarrow> startup \<times> world" where
  "main e w =
     (case (case Load e w of
              Inl err \<Rightarrow>
                (zero_HostState\<lparr>Initialized := False\<rparr>,
                 log_PrintErr ''Failed to load state, assuming fresh host'' err w)
            | Inr s \<Rightarrow> (s, w)) of
        (hostState, w1) \<Rightarrow>
          if \<not> Initialized hostState
          then (case Initialize e
                       (log_Println ''Fresh host detected, running initialization'' w1) of
                  (Ok u, w2) \<Rightarrow> (Serve, log_Println ''Host initialization complete'' w2)
                | (Err err, w2) \<Rightarrow> (Exit 1, log_PrintErr ''Host setup failed'' err w2)
                | (Panic, w2) \<Rightarrow> (Exit 2, w2))
          else (Serve, log_Println ''Host already initialized, skipping setup'' w1))"

section \<open>Cluster Orchestrator (package server, handlers)\<close>

text \<open>
  A handler answers with \<open>http.Error\<close> (a message, possibly formatted with an error, and
  a status) or with a body and a status; a handler that panics answers nothing.
  A request body is \<open>None\<close> when it does not decode.
\<close>

datatype body =
    CreateBody ClusterResponse
  | MessageBody string
  | ClusterBody ClusterResponse
  | YamlBody string

datatype response =
    http_Error string "error option" nat
  | Respond nat body
  | Aborted

definition lookup :: "(string \<rightharpoonup> ClusterInfo) option \<Rightarrow> string \<Rightarrow> ClusterInfo option" where
  "lookup m k = (case m of None \<Rightarrow> None | Some f \<Rightarrow> f k)"

definition handleCreateCluster ::
  "env \<Rightarrow> ClusterCreateRequest option \<Rightarrow> world \<Rightarrow> response \<times> world" where
  "handleCreateCluster e r w =
     (case r of
        None \<Rightarrow> (http_Error ''Invalid request body'' None 400, w)
      | Some req \<Rightarrow>
          if Name req = [] then (http_Error ''Cluster name is required'' None 400, w)
          else
     (case Load e w of
        Inl err \<Rightarrow> (http_Error ''Failed to load host state'' None 500, w)
      | Inr hostState \<Rightarrow>
     (case lookup (Clusters hostState) (Name req) of
        Some info \<Rightarrow>
          (http_Error (''Cluster '' @ Name req @ '' already exists'') None 409, w)
      | None \<Rightarrow>
     (case CreateCluster e (Name req) True w of
        (Some err, w1) \<Rightarrow> (http_Error ''Failed to create cluster'' (Some err) 500, w1)
      | (None, w1) \<Rightarrow>
          let clusterType =
                (if Name req = ''kind'' then ''infrastructure'' else ''development'')
          in
     (case UpdateCluster e (Name req) ''running'' clusterType (KubeVirt_req req) w1 of
        (Panic, w2) \<Rightarrow> (Aborted, w2)
      | (res, w2) \<Rightarrow>
          (Respond 201
             (CreateBody \<lparr>Name_resp = Name req, Status_resp = ''running'',
                          Created_resp = None, Type_resp = clusterType,
                          KubeVirt_resp = KubeVirt_req req\<rparr>),
           case res of
             Err err \<Rightarrow> log_PrintErr ''Failed to update cluster state'' err w2
           | _ \<Rightarrow> w2))))))"

definition handleGetCluster :: "env \<Rightarrow> string \<Rightarrow> world \<Rightarrow> response" where
  "handleGetCluster e name w =
     (case Load e w of
        Inl err \<Rightarrow> http_Error ''Failed to load host state'' None 500
      | Inr hostState \<Rightarrow>
          (case lookup (Clusters hostState) name of
             None \<Rightarrow> http_Error ''Cluster not found'' None 404
           | Some info \<Rightarrow>
               Respond 200
                 (ClusterBody \<lparr>Name_resp = name, Status_resp = Status info,
                               Created_resp = Created info, Type_resp = Type info,
                               KubeVirt_resp = KubeVirt info\<rparr>)))"

definition handleDeleteCluster :: "env \<Rightarrow> string \<Rightarrow> world \<Rightarrow> response \<times> world" where
  "handleDeleteCluster e name w =
     (if name = ''kind''
      then (http_Error ''Cannot delete infrastructure cluster'' None 403, w)
      else
     (case DeleteCluster e name w of
        (Some err, w1) \<Rightarrow> (http_Error ''Failed to delete cluster'' (Some err) 500, w1)
      | (None, w1) \<Rightarrow>
     (case RemoveCluster e name w1 of
        (Panic, w2) \<Rightarrow> (Aborted, w2)
      | (res, w2) \<Rightarrow>
          (Respond 200 (MessageBody (''Cluster '' @ name @ '' deleted'')),
           case res of
             Err err \<Rightarrow> log_PrintErr ''Failed to remove cluster from state'' err w2
           | _ \<Rightarrow> w2))))"

definition handleGetKubeconfig :: "env \<Rightarrow> string \<Rightarrow> world \<Rightarrow> response \<times> world" where
  "handleGetKubeconfig e name w =
     (case GetKubeconfig e name w of
        (Inl err, w1) \<Rightarrow> (http_Error ''Failed to get kubeconfig'' (Some err) 500, w1)
      | (Inr kc, w1) \<Rightarrow> (Respond 200 (YamlBody kc), w1))"

definition handleLoadImage ::
  "env \<Rightarrow> string \<Rightarrow> string option \<Rightarrow> world \<Rightarrow> response \<times> world" where
  "handleLoadImage e name r w =
     (case r of
        None \<Rightarrow> (http_Error ''Invalid request body'' None 400, w)
      | Some img \<Rightarrow>
          if img = [] then (http_Error ''Image name is required'' None 400, w)
          else
     (case LoadImage e name img w of
        (Some err, w1) \<Rightarrow> (http_Error ''Failed to load image'' (Some err) 500, w1)
      | (None, w1) \<Rightarrow>
          (Respond 200
             (MessageBody (''Image '' @ img @ '' loaded into cluster '' @ name)), w1)))"

definition handleRegistryStart :: "env \<Rightarrow> world \<Rightarrow> response \<times> world" where
  "handleRegistryStart e w =
     (case CreateRegistry e w of
        (Some err, w1) \<Rightarrow> (http_Error ''Failed to start registry'' (Some err) 500, w1)
      | (None, w1) \<Rightarrow>
     (case SetRegistryStatus e True w1 of
        (Panic, w2) \<Rightarrow> (Aborted, w2)
      | (res, w2) \<Rightarrow>
          (Respond 200 (MessageBody ''Registry started''),
           case res of
             Err err \<Rightarrow> log_PrintErr ''Failed to update registry status'' err w2
           | _ \<Rightarrow> w2)))"

section \<open>Runs of the whole program\<close>

text \<open>
  The process is down or serving. From a fresh host (no state file, nothing run yet) the
  process starts with \<open>main\<close>, which exits or goes on to serve; while it serves, each
  request runs one handler; it may stop at any time. The handlers that only read
  (health, host status, version, list, get, registry status) leave the world as it is.
  Each step may meet any environment.
\<close>

datatype phase = Down | Up

inductive reachable :: "phase \<Rightarrow> world \<Rightarrow> bool" where
  fresh: "reachable Down \<lparr>disk = None, trace = [], logs = []\<rparr>"
| start: "reachable Down w \<Longrightarrow> main e w = (Serve, w') \<Longrightarrow> reachable Up w'"
| exit: "reachable Down w \<Longrightarrow> main e w = (Exit n, w') \<Longrightarrow> reachable Down w'"
| stop: "reachable Up w \<Longrightarrow> reachable Down w"
| create: "reachable Up w \<Longrightarrow> handleCreateCluster e r w = (resp, w') \<Longrightarrow> reachable Up w'"
| delete: "reachable Up w \<Longrightarrow> handleDeleteCluster e name w = (resp, w') \<Longrightarrow> reachable Up w'"
| kubeconfig:
    "reachable Up w \<Longrightarrow> handleGetKubeconfig e name w = (resp, w') \<Longrightarrow> reachable Up w'"
| load_image:
    "reachable Up w \<Longrightarrow> handleLoadImage e name r w = (resp, w') \<Longrightarrow> reachable Up w'"
| registry: "reachable Up w \<Longrightarrow> handleRegistryStart e w = (resp, w') \<Longrightarrow> reachable Up w'"

text \<open>The state file holds no record that says the host is initialized.\<close>

definition uninitialized :: "bytes option \<Rightarrow> bool" where
  "uninitialized d = (case d of Some (Json s) \<Rightarrow> \<not> Initialized s | _ \<Rightarrow> True)"

text \<open>
  A call that writes a record saying the host is initialized, whatever became of the
  write; and a world in which, from position \<open>k\<close> of the trace on, no such write was
  even attempted and the file does not say initialized.
\<close>

fun is_commit :: "call \<Rightarrow> bool" where
  "is_commit (WriteStateFile s r) = Initialized s"
| "is_commit c = False"

definition no_commit_since :: "nat \<Rightarrow> world \<Rightarrow> bool" where
  "no_commit_since k w =
     (uninitialized (disk w) \<and> k \<le> length (trace w) \<and>
      \<not> list_ex is_commit (drop k (trace w)))"

text \<open>
  Invariants of the state file. In a stored record the infrastructure type and the
  reserved name \<open>kind\<close> go together, the empty name is no key, and a record that says
  initialized holds the reserved cluster (\<open>store_ok\<close>); the file holds the reserved
  cluster (\<open>based\<close>); the file says initialized, or was truncated by a failed write
  (\<open>committed\<close>).
\<close>

definition reserved_only :: "HostState \<Rightarrow> bool" where
  "reserved_only s =
     (\<forall>n c. lookup (Clusters s) n = Some c \<longrightarrow>
            (Type c = ''infrastructure'') = (n = ''kind''))"

definition store_ok :: "bytes option \<Rightarrow> bool" where
  "store_ok d =
     (case d of
        Some (Json s) \<Rightarrow>
          reserved_only s \<and> lookup (Clusters s) [] = None \<and>
          (Initialized s \<longrightarrow> lookup (Clusters s) ''kind'' \<noteq> None)
      | _ \<Rightarrow> True)"

definition based :: "bytes option \<Rightarrow> bool" where
  "based d = (case d of Some (Json s) \<Rightarrow> lookup (Clusters s) ''kind'' \<noteq> None | _ \<Rightarrow> False)"

definition committed :: "bytes option \<Rightarrow> bool" where
  "committed d =
     (case d of None \<Rightarrow> False | Some Garbage \<Rightarrow> True | Some (Json s) \<Rightarrow> Initialized s)"

section \<open>Concrete hosts and environments\<close>

text \<open>An environment in which nothing fails, and a host on which nothing has run.\<close>

definition quiet :: env where
  "quiet =
     \<lparr>tool_fails = (\<lambda>h c. False), read_fails = (\<lambda>h. False),
      marshal_fails = (\<lambda>s. False), write_result = (\<lambda>h s. Written),
      storage_found = \<lparr>HasNVMe = False, Device = [], Type_sc = ''ebs-only''\<rparr>,
      instance_type = ''t3.large'', kubeconfig = (\<lambda>n. []), now = length\<rparr>"

definition fresh_host :: world where
  "fresh_host = \<lparr>disk = None, trace = [], logs = []\<rparr>"

text \<open>The host after a first start in which nothing failed.\<close>

definition serving_host :: world where
  "serving_host = snd (main quiet fresh_host)"

text \<open>The creation of the base cluster fails, everything else works.\<close>

definition base_cluster_fails :: env where
  "base_cluster_fails =
     quiet\<lparr>tool_fails :=
             (\<lambda>h c. case c of KindCreateCluster n r \<Rightarrow> True | _ \<Rightarrow> False)\<rparr>"

text \<open>The state file cannot be opened for writing, everything else works.\<close>

definition disk_read_only :: env where
  "disk_read_only = quiet\<lparr>write_result := (\<lambda>h s. OpenFailed)\<rparr>"

text \<open>Every write of the state file fails after the file was truncated.\<close>

definition disk_fills :: env where
  "disk_fills = quiet\<lparr>write_result := (\<lambda>h s. Truncated)\<rparr>"

definition dev1 :: ClusterCreateRequest where
  "dev1 = \<lparr>Name = ''dev1'', KubeVirt_req = False\<rparr>"

text \<open>The serving host after \<open>dev1\<close> was created.\<close>

definition dev1_host :: world where
  "dev1_host = snd (handleCreateCluster quiet (Some dev1) serving_host)"

lemmas state_defs =
  IsNotExist.simps Load_def ReadFile_def Unmarshal_def Save_def WriteFile_def
  MarkInitialized_def UpdateCluster_def RemoveCluster_def SetRegistryStatus_def
  SetBaseClusterReady_def zero_HostState_def lookup_def

lemmas tool_defs =
  run_tool_def CreateRegistry_def CreateCluster_def DeleteCluster_def
  detectStorage_def getInstanceType_def installPackages_def setupNVMeStorage_def
  setupDefaultStorage_def configureStorage_def configureSSH_def
  log_Println_def log_PrintErr_def

lemmas init_defs = createBaseInfrastructure_def Initialize_def main_def

lemmas host_defs =
  quiet_def fresh_host_def serving_host_def base_cluster_fails_def disk_read_only_def
  disk_fills_def dev1_def dev1_host_def

section \<open>Lemmas about the operations\<close>

subsection \<open>Logging and external calls leave the state file alone\<close>

lemma log_Println_fields [simp]:
  "disk (log_Println m w) = disk w" "trace (log_Println m w) = trace w"
  "logs (log_Println m w) = logs w @ [Println m]"
  by (simp_all add: log_Println_def)

lemma log_PrintErr_fields [simp]:
  "disk (log_PrintErr m err w) = disk w" "trace (log_PrintErr m err w) = trace w"
  "logs (log_PrintErr m err w) = logs w @ [PrintErr m err]"
  by (simp_all add: log_PrintErr_def)

lemma run_tool_fields [simp]:
  "disk (snd (run_tool e c w)) = disk w" "logs (snd (run_tool e c w)) = logs w"
  "trace (snd (run_tool e c w)) = trace w @ [c]"
  by (simp_all add: run_tool_def)

lemma tool_disk [simp]:
  "disk (snd (detectStorage e w)) = disk w"
  "disk (snd (getInstanceType e w)) = disk w"
  "disk (snd (installPackages e w)) = disk w"
  "disk (snd (configureStorage e st w)) = disk w"
  "disk (snd (configureSSH w)) = disk w"
  "disk (snd (CreateRegistry e w)) = disk w"
  "disk (snd (CreateCluster e n b w)) = disk w"
  "disk (snd (DeleteCluster e n w)) = disk w"
  "disk (snd (GetKubeconfig e n w)) = disk w"
  "disk (snd (LoadImage e n i w)) = disk w"
  by (simp_all add: detectStorage_def getInstanceType_def installPackages_def
      configureStorage_def setupNVMeStorage_def setupDefaultStorage_def configureSSH_def
      CreateRegistry_def CreateCluster_def DeleteCluster_def GetKubeconfig_def LoadImage_def
      split_beta split: option.split)

subsection \<open>Load and Save\<close>

lemmas Load_unfold = Load_def ReadFile_def Unmarshal_def zero_HostState_def lookup_def

lemma Load_Clusters_not_nil: "Load e w = Inr s \<Longrightarrow> Clusters s \<noteq> None"
  by (auto simp: Load_unfold split: option.splits if_splits bytes.splits)

lemma Load_same_disk:
  "disk w' = disk w \<Longrightarrow> Load e w = Inr s \<Longrightarrow> Load e' w' = Inr s' \<Longrightarrow> s' = s"
  by (auto simp: Load_unfold split: option.splits if_splits bytes.splits)

lemma Load_Garbage: "disk w = Some Garbage \<Longrightarrow> Load e w \<noteq> Inr s"
  by (auto simp: Load_unfold split: option.splits if_splits bytes.splits)

lemma Load_uninitialized: "uninitialized (disk w) \<Longrightarrow> Load e w = Inr s \<Longrightarrow> \<not> Initialized s"
  by (auto simp: uninitialized_def Load_unfold split: option.splits if_splits bytes.splits)

lemma Load_committed: "committed (disk w) \<Longrightarrow> Load e w = Inr s \<Longrightarrow> Initialized s"
  by (auto simp: committed_def Load_unfold split: option.splits if_splits bytes.splits)

lemma Load_based: "based (disk w) \<Longrightarrow> Load e w = Inr s \<Longrightarrow> lookup (Clusters s) ''kind'' \<noteq> None"
  by (auto simp: based_def Load_unfold split: option.splits if_splits bytes.splits)

lemma Load_reserved_only: "store_ok (disk w) \<Longrightarrow> Load e w = Inr s \<Longrightarrow> reserved_only s"
  by (auto simp: store_ok_def reserved_only_def Load_unfold
      split: option.splits if_splits bytes.splits)

lemma Load_no_empty_name:
  "store_ok (disk w) \<Longrightarrow> Load e w = Inr s \<Longrightarrow> lookup (Clusters s) [] = None"
  by (auto simp: store_ok_def Load_unfold split: option.splits if_splits bytes.splits)

lemma Load_base_present:
  "store_ok (disk w) \<Longrightarrow> Load e w = Inr s \<Longrightarrow> Initialized s \<Longrightarrow>
     lookup (Clusters s) ''kind'' \<noteq> None"
  by (auto simp: store_ok_def Load_unfold split: option.splits if_splits bytes.splits)

lemma Save_effect:
  "(fst (Save e s w) = Ok () \<and> disk (snd (Save e s w)) = Some (Json s))
   \<or> ((\<exists>err. fst (Save e s w) = Err err)
      \<and> (disk (snd (Save e s w)) = disk w \<or> disk (snd (Save e s w)) = Some Garbage))"
  by (simp add: Save_def WriteFile_def split: wres.splits)

lemma Save_logs: "logs (snd (Save e s w)) = logs w"
  by (simp add: Save_def WriteFile_def split: wres.splits)

text \<open>Every mutator is a load, a change of the loaded state, and a save.\<close>

lemma load_save:
  assumes "rw = (case Load e w of Inl err \<Rightarrow> (Err err, w) | Inr state \<Rightarrow> Save e (f state) w)"
  shows "(\<exists>s. Load e w = Inr s \<and> fst rw = Ok () \<and> disk (snd rw) = Some (Json (f s)))
       \<or> ((\<exists>err. fst rw = Err err) \<and> (disk (snd rw) = disk w \<or> disk (snd rw) = Some Garbage))"
proof (cases "Load e w")
  case (Inl err)
  with assms show ?thesis by simp
next
  case (Inr s)
  with assms have "rw = Save e (f s) w" by simp
  with Save_effect [of e "f s" w] Inr show ?thesis by auto
qed

subsection \<open>What each mutator of the State Store does to the file\<close>

lemma SetRegistryStatus_effect:
  "(\<exists>s. Load e w = Inr s \<and> fst (SetRegistryStatus e b w) = Ok () \<and>
        disk (snd (SetRegistryStatus e b w)) = Some (Json (s\<lparr>RegistryRunning := b\<rparr>)))
   \<or> ((\<exists>err. fst (SetRegistryStatus e b w) = Err err) \<and>
       (disk (snd (SetRegistryStatus e b w)) = disk w \<or>
        disk (snd (SetRegistryStatus e b w)) = Some Garbage))"
  by (rule load_save) (simp add: SetRegistryStatus_def)

lemma SetBaseClusterReady_effect:
  "(\<exists>s. Load e w = Inr s \<and> fst (SetBaseClusterReady e w) = Ok () \<and>
        disk (snd (SetBaseClusterReady e w)) = Some (Json (s\<lparr>BaseClusterReady := True\<rparr>)))
   \<or> ((\<exists>err. fst (SetBaseClusterReady e w) = Err err) \<and>
       (disk (snd (SetBaseClusterReady e w)) = disk w \<or>
        disk (snd (SetBaseClusterReady e w)) = Some Garbage))"
  by (rule load_save) (simp add: SetBaseClusterReady_def)

lemma MarkInitialized_effect:
  "(\<exists>s. Load e w = Inr s \<and> fst (MarkInitialized e it st sd w) = Ok () \<and>
        disk (snd (MarkInitialized e it st sd w)) =
          Some (Json (s\<lparr>Initialized := True, InitializedAt := Some (now e (trace w)),
                         InstanceType := it, StorageType := st, StorageDevice := sd,
                         PackagesInstalled := True\<rparr>)))
   \<or> ((\<exists>err. fst (MarkInitialized e it st sd w) = Err err) \<and>
       (disk (snd (MarkInitialized e it st sd w)) = disk w \<or>
        disk (snd (MarkInitialized e it st sd w)) = Some Garbage))"
  by (rule load_save) (simp add: MarkInitialized_def)

lemma RemoveCluster_effect:
  "(\<exists>s. Load e w = Inr s \<and> fst (RemoveCluster e n w) = Ok () \<and>
        disk (snd (RemoveCluster e n w)) =
          Some (Json (s\<lparr>Clusters := map_option (\<lambda>m. m(n := None)) (Clusters s)\<rparr>)))
   \<or> ((\<exists>err. fst (RemoveCluster e n w) = Err err) \<and>
       (disk (snd (RemoveCluster e n w)) = disk w \<or>
        disk (snd (RemoveCluster e n w)) = Some Garbage))"
  by (rule load_save) (simp add: RemoveCluster_def)

lemma UpdateCluster_effect:
  "(\<exists>s m. Load e w = Inr s \<and> Clusters s = Some m \<and>
        fst (UpdateCluster e n st ty kv w) = Ok () \<and>
        disk (snd (UpdateCluster e n st ty kv w)) =
          Some (Json (s\<lparr>Clusters := Some (m(n \<mapsto>
                          \<lparr>Status = st, Created = Some (now e (trace w)),
                           Type = ty, KubeVirt = kv\<rparr>))\<rparr>)))
   \<or> ((\<exists>err. fst (UpdateCluster e n st ty kv w) = Err err) \<and>
       (disk (snd (UpdateCluster e n st ty kv w)) = disk w \<or>
        disk (snd (UpdateCluster e n st ty kv w)) = Some Garbage))"
proof (cases "Load e w")
  case (Inl err)
  then show ?thesis by (simp add: UpdateCluster_def)
next
  case (Inr s)
  then obtain m where m: "Clusters s = Some m"
    using Load_Clusters_not_nil by blast
  let ?s' = "s\<lparr>Clusters := Some (m(n \<mapsto> \<lparr>Status = st, Created = Some (now e (trace w)),
                           Type = ty, KubeVirt = kv\<rparr>))\<rparr>"
  have "UpdateCluster e n st ty kv w = Save e ?s' w"
    using Inr m by (simp add: UpdateCluster_def)
  with Save_effect [of e ?s' w] Inr m show ?thesis by auto
qed

lemma mutator_logs [simp]:
  "logs (snd (SetRegistryStatus e b w)) = logs w"
  "logs (snd (SetBaseClusterReady e w)) = logs w"
  "logs (snd (MarkInitialized e it st sd w)) = logs w"
  "logs (snd (RemoveCluster e n w)) = logs w"
  "logs (snd (UpdateCluster e n st ty kv w)) = logs w"
  by (simp_all add: SetRegistryStatus_def SetBaseClusterReady_def MarkInitialized_def
      RemoveCluster_def UpdateCluster_def Save_logs split: sum.splits option.splits)

lemma mutator_not_Panic [simp]:
  "fst (SetRegistryStatus e b w) \<noteq> Panic"
  "fst (SetBaseClusterReady e w) \<noteq> Panic"
  "fst (MarkInitialized e it st sd w) \<noteq> Panic"
  "fst (RemoveCluster e n w) \<noteq> Panic"
  "fst (UpdateCluster e n st ty kv w) \<noteq> Panic"
proof -
  show "fst (SetRegistryStatus e b w) \<noteq> Panic"
    using SetRegistryStatus_effect [of e w b] by auto
  show "fst (SetBaseClusterReady e w) \<noteq> Panic"
    using SetBaseClusterReady_effect [of e w] by auto
  show "fst (MarkInitialized e it st sd w) \<noteq> Panic"
    using MarkInitialized_effect [of e w it st sd] by auto
  show "fst (RemoveCluster e n w) \<noteq> Panic"
    using RemoveCluster_effect [of e w n] by auto
  show "fst (UpdateCluster e n st ty kv w) \<noteq> Panic"
    using UpdateCluster_effect [of e w n st ty kv] by auto
qed

subsection \<open>The file never says initialized before MarkInitialized has written it\<close>

lemma uninitialized_simps [simp]:
  "uninitialized None" "uninitialized (Some Garbage)"
  "uninitialized (Some (Json s)) = (\<not> Initialized s)"
  by (simp_all add: uninitialized_def)

lemma SetRegistryStatus_uninitialized [simp]:
  "uninitialized (disk w) \<Longrightarrow> uninitialized (disk (snd (SetRegistryStatus e b w)))"
  using SetRegistryStatus_effect [of e w b] by (auto dest: Load_uninitialized)

lemma SetBaseClusterReady_uninitialized [simp]:
  "uninitialized (disk w) \<Longrightarrow> uninitialized (disk (snd (SetBaseClusterReady e w)))"
  using SetBaseClusterReady_effect [of e w] by (auto dest: Load_uninitialized)

lemma UpdateCluster_uninitialized [simp]:
  "uninitialized (disk w) \<Longrightarrow> uninitialized (disk (snd (UpdateCluster e n st ty kv w)))"
  using UpdateCluster_effect [of e w n st ty kv] by (auto dest: Load_uninitialized)

lemma MarkInitialized_uninitialized [simp]:
  "fst (MarkInitialized e it st sd w) \<noteq> Ok () \<Longrightarrow> uninitialized (disk w) \<Longrightarrow>
     uninitialized (disk (snd (MarkInitialized e it st sd w)))"
  using MarkInitialized_effect [of e w it st sd] by auto

lemmas case_splits = option.split result.split sum.split

lemma createBaseInfrastructure_uninitialized [simp]:
  "uninitialized (disk w) \<Longrightarrow> uninitialized (disk (snd (createBaseInfrastructure e w)))"
  by (simp add: createBaseInfrastructure_def split_beta split: case_splits)

lemma createBaseInfrastructure_not_Panic [simp]:
  "fst (createBaseInfrastructure e w) \<noteq> Panic"
  by (simp add: createBaseInfrastructure_def split_beta split: case_splits)


subsection \<open>The reserved name and the infrastructure type go together\<close>

lemma store_ok_simps [simp]:
  "store_ok None" "store_ok (Some Garbage)"
  "store_ok (Some (Json s)) =
     (reserved_only s \<and> lookup (Clusters s) [] = None \<and>
      (Initialized s \<longrightarrow> lookup (Clusters s) ''kind'' \<noteq> None))"
  by (simp_all add: store_ok_def)

lemma based_simps [simp]:
  "\<not> based None" "\<not> based (Some Garbage)"
  "based (Some (Json s)) = (lookup (Clusters s) ''kind'' \<noteq> None)"
  by (simp_all add: based_def)

lemma committed_simps [simp]:
  "\<not> committed None" "committed (Some Garbage)"
  "committed (Some (Json s)) = Initialized s"
  by (simp_all add: committed_def)

lemma reserved_only_fields [simp]:
  "reserved_only (s\<lparr>RegistryRunning := b\<rparr>) = reserved_only s"
  "reserved_only (s\<lparr>BaseClusterReady := b\<rparr>) = reserved_only s"
  "reserved_only (s\<lparr>Initialized := b\<rparr>) = reserved_only s"
  "reserved_only (s\<lparr>InitializedAt := t\<rparr>) = reserved_only s"
  "reserved_only (s\<lparr>InstanceType := x\<rparr>) = reserved_only s"
  "reserved_only (s\<lparr>StorageType := x\<rparr>) = reserved_only s"
  "reserved_only (s\<lparr>StorageDevice := x\<rparr>) = reserved_only s"
  "reserved_only (s\<lparr>PackagesInstalled := b\<rparr>) = reserved_only s"
  by (simp_all add: reserved_only_def)

lemma reserved_only_update:
  "reserved_only s \<Longrightarrow> Clusters s = Some m \<Longrightarrow> (Type c = ''infrastructure'') = (n = ''kind'') \<Longrightarrow>
     reserved_only (s\<lparr>Clusters := Some (m(n \<mapsto> c))\<rparr>)"
  by (auto simp: reserved_only_def lookup_def)

lemma reserved_only_remove:
  "reserved_only s \<Longrightarrow>
     reserved_only (s\<lparr>Clusters := map_option (\<lambda>m. m(n := None)) (Clusters s)\<rparr>)"
  by (auto simp: reserved_only_def lookup_def split: option.splits if_splits)

lemma SetRegistryStatus_store_ok [simp]:
  "store_ok (disk w) \<Longrightarrow> store_ok (disk (snd (SetRegistryStatus e b w)))"
  using SetRegistryStatus_effect [of e w b] Load_reserved_only [of w e]
    Load_no_empty_name [of w e] Load_base_present [of w e]
  by auto

lemma SetBaseClusterReady_store_ok [simp]:
  "store_ok (disk w) \<Longrightarrow> store_ok (disk (snd (SetBaseClusterReady e w)))"
  using SetBaseClusterReady_effect [of e w] Load_reserved_only [of w e]
    Load_no_empty_name [of w e] Load_base_present [of w e]
  by auto

lemma UpdateCluster_store_ok [simp]:
  "store_ok (disk w) \<Longrightarrow> (ty = ''infrastructure'') = (n = ''kind'') \<Longrightarrow> n \<noteq> [] \<Longrightarrow>
     store_ok (disk (snd (UpdateCluster e n st ty kv w)))"
  using UpdateCluster_effect [of e w n st ty kv] Load_reserved_only [of w e]
    Load_no_empty_name [of w e] Load_base_present [of w e]
  by (auto simp: reserved_only_update lookup_def)

lemma RemoveCluster_store_ok [simp]:
  "store_ok (disk w) \<Longrightarrow> n \<noteq> ''kind'' \<Longrightarrow> store_ok (disk (snd (RemoveCluster e n w)))"
  using RemoveCluster_effect [of e w n] Load_reserved_only [of w e]
    Load_no_empty_name [of w e] Load_base_present [of w e]
  by (auto simp: reserved_only_remove lookup_def split: option.splits)

lemma MarkInitialized_store_ok [simp]:
  "store_ok (disk w) \<Longrightarrow> based (disk w) \<Longrightarrow>
     store_ok (disk (snd (MarkInitialized e it st sd w)))"
  using MarkInitialized_effect [of e w it st sd] Load_reserved_only [of w e]
    Load_no_empty_name [of w e] Load_based [of w e]
  by auto

lemma SetRegistryStatus_based [simp]:
  "based (disk w) \<Longrightarrow> fst (SetRegistryStatus e b w) = Ok () \<Longrightarrow>
     based (disk (snd (SetRegistryStatus e b w)))"
  using SetRegistryStatus_effect [of e w b] Load_based [of w e] by auto

lemma SetBaseClusterReady_based [simp]:
  "based (disk w) \<Longrightarrow> fst (SetBaseClusterReady e w) = Ok () \<Longrightarrow>
     based (disk (snd (SetBaseClusterReady e w)))"
  using SetBaseClusterReady_effect [of e w] Load_based [of w e] by auto

lemma UpdateCluster_based [simp]:
  "fst (UpdateCluster e ''kind'' st ty kv w) = Ok () \<Longrightarrow>
     based (disk (snd (UpdateCluster e ''kind'' st ty kv w)))"
  using UpdateCluster_effect [of e w "''kind''" st ty kv] by (auto simp: lookup_def)

lemma MarkInitialized_committed [simp]:
  "fst (MarkInitialized e it st sd w) = Ok () \<Longrightarrow>
     committed (disk (snd (MarkInitialized e it st sd w)))"
  using MarkInitialized_effect [of e w it st sd] by auto

lemma SetRegistryStatus_committed [simp]:
  "committed (disk w) \<Longrightarrow> committed (disk (snd (SetRegistryStatus e b w)))"
  using SetRegistryStatus_effect [of e w b] Load_committed [of w e] by auto

lemma UpdateCluster_committed [simp]:
  "committed (disk w) \<Longrightarrow> committed (disk (snd (UpdateCluster e n st ty kv w)))"
  using UpdateCluster_effect [of e w n st ty kv] Load_committed [of w e] by auto

lemma RemoveCluster_committed [simp]:
  "committed (disk w) \<Longrightarrow> committed (disk (snd (RemoveCluster e n w)))"
  using RemoveCluster_effect [of e w n] Load_committed [of w e] by auto

lemma createBaseInfrastructure_store_ok [simp]:
  "store_ok (disk w) \<Longrightarrow> store_ok (disk (snd (createBaseInfrastructure e w)))"
  by (simp add: createBaseInfrastructure_def split_beta split: case_splits)

lemma createBaseInfrastructure_based [simp]:
  "fst (createBaseInfrastructure e w) = Ok () \<Longrightarrow>
     based (disk (snd (createBaseInfrastructure e w)))"
  by (simp add: createBaseInfrastructure_def split_beta split: option.split_asm result.split_asm)


subsection \<open>Initialization, start and the handlers keep the invariants\<close>

lemma Initialize_store_ok [simp]:
  "store_ok (disk w) \<Longrightarrow> store_ok (disk (snd (Initialize e w)))"
  by (simp add: Initialize_def split_beta split: case_splits)

lemma Initialize_committed [simp]:
  "fst (Initialize e w) = Ok () \<Longrightarrow> committed (disk (snd (Initialize e w)))"
  by (simp add: Initialize_def split_beta split: option.split_asm result.split_asm sum.split_asm)

lemma Load_Initialized_committed: "Load e w = Inr s \<Longrightarrow> Initialized s \<Longrightarrow> committed (disk w)"
  by (auto simp: committed_def Load_unfold split: option.splits if_splits bytes.splits)

lemma Load_readable:
  "disk w' = disk w \<Longrightarrow> Load e' w' = Inr s \<Longrightarrow> Load (e'\<lparr>read_fails := \<lambda>h. False\<rparr>) w = Inr s"
  by (auto simp: Load_unfold split: option.splits if_splits bytes.splits)

lemma Load_written:
  "disk w = Some (Json s) \<Longrightarrow> Clusters s \<noteq> None \<Longrightarrow> Load e w = Inr s' \<Longrightarrow> s' = s"
  by (auto simp: Load_unfold split: option.splits if_splits bytes.splits)

lemma main_store_ok: "store_ok (disk w) \<Longrightarrow> store_ok (disk (snd (main e w)))"
  by (simp add: main_def split_beta split: case_splits)

lemma main_committed: "fst (main e w) = Serve \<Longrightarrow> committed (disk (snd (main e w)))"
  by (auto simp: main_def split_beta Load_Initialized_committed
      split: sum.split_asm result.split_asm if_split_asm)

lemma handleCreateCluster_store_ok:
  "store_ok (disk w) \<Longrightarrow> store_ok (disk (snd (handleCreateCluster e r w)))"
  by (simp add: handleCreateCluster_def split_beta Let_def split: case_splits)

lemma handleCreateCluster_committed:
  "committed (disk w) \<Longrightarrow> committed (disk (snd (handleCreateCluster e r w)))"
  by (simp add: handleCreateCluster_def split_beta Let_def split: case_splits)

lemma handleDeleteCluster_store_ok:
  "store_ok (disk w) \<Longrightarrow> store_ok (disk (snd (handleDeleteCluster e n w)))"
  by (simp add: handleDeleteCluster_def split_beta split: case_splits)

lemma handleDeleteCluster_committed:
  "committed (disk w) \<Longrightarrow> committed (disk (snd (handleDeleteCluster e n w)))"
  by (simp add: handleDeleteCluster_def split_beta split: case_splits)

lemma handleRegistryStart_store_ok:
  "store_ok (disk w) \<Longrightarrow> store_ok (disk (snd (handleRegistryStart e w)))"
  by (simp add: handleRegistryStart_def split_beta split: case_splits)

lemma handleRegistryStart_committed:
  "committed (disk w) \<Longrightarrow> committed (disk (snd (handleRegistryStart e w)))"
  by (simp add: handleRegistryStart_def split_beta split: case_splits)

lemma read_only_handlers_disk:
  "disk (snd (handleGetKubeconfig e n w)) = disk w"
  "disk (snd (handleLoadImage e n r w)) = disk w"
  by (simp_all add: handleGetKubeconfig_def handleLoadImage_def split_beta split: case_splits)

lemma reachable_invariant:
  "reachable p w \<Longrightarrow> store_ok (disk w) \<and> (p = Up \<longrightarrow> committed (disk w))"
proof (induction rule: reachable.induct)
  case fresh
  show ?case by simp
next
  case (start w e w')
  from start.hyps(2) have "fst (main e w) = Serve" and "snd (main e w) = w'" by simp_all
  with start.IH main_store_ok [of w e] main_committed [of e w] show ?case by auto
next
  case (exit w e n w')
  from exit.hyps(2) have "snd (main e w) = w'" by simp
  with exit.IH main_store_ok [of w e] show ?case by auto
next
  case (stop w)
  then show ?case by simp
next
  case (create w e r resp w')
  from create.hyps(2) have "snd (handleCreateCluster e r w) = w'" by simp
  with create.IH handleCreateCluster_store_ok [of w e r] handleCreateCluster_committed [of w e r]
  show ?case by auto
next
  case (delete w e name resp w')
  from delete.hyps(2) have "snd (handleDeleteCluster e name w) = w'" by simp
  with delete.IH handleDeleteCluster_store_ok [of w e name]
    handleDeleteCluster_committed [of w e name]
  show ?case by auto
next
  case (kubeconfig w e name resp w')
  from kubeconfig.hyps(2) have "snd (handleGetKubeconfig e name w) = w'" by simp
  with kubeconfig.IH read_only_handlers_disk(1) [of e name w] show ?case by auto
next
  case (load_image w e name r resp w')
  from load_image.hyps(2) have "snd (handleLoadImage e name r w) = w'" by simp
  with load_image.IH read_only_handlers_disk(2) [of e name r w] show ?case by auto
next
  case (registry w e resp w')
  from registry.hyps(2) have "snd (handleRegistryStart e w) = w'" by simp
  with registry.IH handleRegistryStart_store_ok [of w e] handleRegistryStart_committed [of w e]
  show ?case by auto
qed

lemma reachable_no_empty_name:
  "reachable p w \<Longrightarrow> Load e w = Inr s \<Longrightarrow> lookup (Clusters s) [] = None"
  using reachable_invariant Load_no_empty_name by blast

subsection \<open>No write of an initialized record before the last step\<close>

lemma no_commit_since_log [simp]:
  "no_commit_since k (log_Println m w) = no_commit_since k w"
  "no_commit_since k (log_PrintErr m err w) = no_commit_since k w"
  by (simp_all add: no_commit_since_def)

lemma no_commit_since_run_tool:
  "no_commit_since k w \<Longrightarrow> \<not> is_commit c \<Longrightarrow> no_commit_since k (snd (run_tool e c w))"
  by (simp add: no_commit_since_def list_ex_iff)

lemma no_commit_since_tools [simp]:
  "no_commit_since k w \<Longrightarrow> no_commit_since k (snd (detectStorage e w))"
  "no_commit_since k w \<Longrightarrow> no_commit_since k (snd (getInstanceType e w))"
  "no_commit_since k w \<Longrightarrow> no_commit_since k (snd (installPackages e w))"
  "no_commit_since k w \<Longrightarrow> no_commit_since k (snd (configureStorage e st w))"
  "no_commit_since k w \<Longrightarrow> no_commit_since k (snd (configureSSH w))"
  "no_commit_since k w \<Longrightarrow> no_commit_since k (snd (CreateRegistry e w))"
  "no_commit_since k w \<Longrightarrow> no_commit_since k (snd (CreateCluster e n b w))"
  by (simp_all add: detectStorage_def getInstanceType_def installPackages_def
      configureStorage_def setupNVMeStorage_def setupDefaultStorage_def configureSSH_def
      CreateRegistry_def CreateCluster_def split_beta no_commit_since_run_tool
      split: option.split)

lemma no_commit_since_Save:
  "no_commit_since k w \<Longrightarrow> \<not> Initialized s \<Longrightarrow> no_commit_since k (snd (Save e s w))"
  by (simp add: no_commit_since_def list_ex_iff Save_def WriteFile_def split: wres.split)

lemma no_commit_since_mutators [simp]:
  "no_commit_since k w \<Longrightarrow> no_commit_since k (snd (SetRegistryStatus e b w))"
  "no_commit_since k w \<Longrightarrow> no_commit_since k (snd (SetBaseClusterReady e w))"
  "no_commit_since k w \<Longrightarrow> no_commit_since k (snd (UpdateCluster e n st ty kv w))"
proof -
  assume k: "no_commit_since k w"
  then have u: "\<And>s. Load e w = Inr s \<Longrightarrow> \<not> Initialized s"
    by (auto simp: no_commit_since_def dest: Load_uninitialized)
  show "no_commit_since k (snd (SetRegistryStatus e b w))"
    using k u by (simp add: SetRegistryStatus_def no_commit_since_Save split: sum.split)
  show "no_commit_since k (snd (SetBaseClusterReady e w))"
    using k u by (simp add: SetBaseClusterReady_def no_commit_since_Save split: sum.split)
  show "no_commit_since k (snd (UpdateCluster e n st ty kv w))"
    using k u
    by (simp add: UpdateCluster_def no_commit_since_Save split: sum.split option.split)
qed

lemma no_commit_since_createBaseInfrastructure [simp]:
  "no_commit_since k w \<Longrightarrow> no_commit_since k (snd (createBaseInfrastructure e w))"
  by (simp add: createBaseInfrastructure_def split_beta split: case_splits)


subsection \<open>Cluster creation and the infrastructure entries\<close>

lemma handleCreateCluster_effect:
  "disk (snd (handleCreateCluster e r w)) = disk w
   \<or> disk (snd (handleCreateCluster e r w)) = Some Garbage
   \<or> (\<exists>req s m t. r = Some req \<and> Load e w = Inr s \<and> lookup (Clusters s) (Name req) = None
         \<and> Clusters s = Some m
         \<and> disk (snd (handleCreateCluster e r w)) =
             Some (Json (s\<lparr>Clusters := Some (m(Name req \<mapsto>
                \<lparr>Status = ''running'', Created = Some t,
                 Type = (if Name req = ''kind'' then ''infrastructure'' else ''development''),
                 KubeVirt = KubeVirt_req req\<rparr>))\<rparr>)))"
proof (cases r)
  case None
  then show ?thesis by (simp add: handleCreateCluster_def)
next
  case (Some req)
  show ?thesis
  proof (cases "Load e w")
    case (Inl err)
    with Some show ?thesis by (simp add: handleCreateCluster_def)
  next
    case (Inr s)
    let ?n = "Name req"
    let ?ty = "if ?n = ''kind'' then ''infrastructure'' else ''development''"
    let ?w1 = "snd (CreateCluster e ?n True w)"
    let ?up = "UpdateCluster e ?n ''running'' ?ty (KubeVirt_req req) ?w1"
    show ?thesis
    proof (cases "?n \<noteq> [] \<and> lookup (Clusters s) ?n = None \<and> fst (CreateCluster e ?n True w) = None")
      case False
      with Some Inr show ?thesis
        by (auto simp: handleCreateCluster_def split_beta split: option.splits)
    next
      case True
      then have w': "disk (snd (handleCreateCluster e r w)) = disk (snd ?up)"
        using Some Inr
        by (simp add: handleCreateCluster_def split_beta Let_def split: result.split)
      from UpdateCluster_effect [of e ?w1 ?n "''running''" ?ty "KubeVirt_req req"]
      show ?thesis
      proof (elim disjE exE conjE)
        fix s1 m
        assume l1: "Load e ?w1 = Inr s1" and m: "Clusters s1 = Some m"
          and d: "disk (snd ?up) =
            Some (Json (s1\<lparr>Clusters := Some (m(?n \<mapsto>
              \<lparr>Status = ''running'', Created = Some (now e (trace ?w1)), Type = ?ty,
               KubeVirt = KubeVirt_req req\<rparr>))\<rparr>))"
        have "s1 = s" using Load_same_disk [of ?w1 w e s e s1] Inr l1 by simp
        with True Some Inr m d w' show ?thesis by auto
      next
        assume "disk (snd ?up) = disk ?w1"
        with w' show ?thesis by simp
      next
        assume "disk (snd ?up) = Some Garbage"
        with w' show ?thesis by simp
      qed
    qed
  qed
qed

lemma create_keeps_infrastructure:
  assumes ok: "store_ok (disk w)" and com: "committed (disk w)"
    and ld: "Load e' (snd (handleCreateCluster e r w)) = Inr s'"
    and ent: "lookup (Clusters s') n = Some c" and ty: "Type c = ''infrastructure''"
  shows "\<exists>e0 s. Load e0 w = Inr s \<and> lookup (Clusters s) n = Some c"
  using handleCreateCluster_effect [of e r w]
proof (elim disjE exE conjE)
  assume "disk (snd (handleCreateCluster e r w)) = disk w"
  from Load_readable [OF this ld] ent show ?thesis by blast
next
  assume "disk (snd (handleCreateCluster e r w)) = Some Garbage"
  with ld Load_Garbage show ?thesis by blast
next
  fix req s m t
  let ?c = "\<lparr>Status = ''running'', Created = Some t,
             Type = (if Name req = ''kind'' then ''infrastructure'' else ''development''),
             KubeVirt = KubeVirt_req req\<rparr>"
  assume l: "Load e w = Inr s" and absent: "lookup (Clusters s) (Name req) = None"
    and m: "Clusters s = Some m"
    and d: "disk (snd (handleCreateCluster e r w)) =
              Some (Json (s\<lparr>Clusters := Some (m(Name req \<mapsto> ?c))\<rparr>))"
  have "lookup (Clusters s) ''kind'' \<noteq> None"
    using Load_committed [OF com l] Load_base_present [OF ok l] by simp
  with absent have nk: "Name req \<noteq> ''kind''" by auto
  have "s' = s\<lparr>Clusters := Some (m(Name req \<mapsto> ?c))\<rparr>"
    using Load_written [OF d _ ld] by simp
  with ent ty nk m have "lookup (Clusters s) n = Some c"
    by (auto simp: lookup_def split: if_splits)
  with l show ?thesis by blast
qed

section \<open>The concrete hosts\<close>

lemma first_start: "fst (main quiet fresh_host) = Serve"
  by (simp add: host_defs state_defs tool_defs init_defs)

lemma serving_host_disk:
  "disk serving_host =
     Some (Json \<lparr>Initialized = True, InitializedAt = Some 9, InstanceType = ''t3.large'',
                  StorageType = ''ebs-only'', StorageDevice = [], PackagesInstalled = True,
                  BaseClusterReady = True, RegistryRunning = True,
                  Clusters = Some [''kind'' \<mapsto>
                    \<lparr>Status = ''running'', Created = Some 7, Type = ''infrastructure'',
                     KubeVirt = False\<rparr>]\<rparr>)"
  by (simp add: host_defs state_defs tool_defs init_defs eval_nat_numeral)

lemma serving_host_reachable: "reachable Up serving_host"
proof -
  have "main quiet fresh_host = (Serve, serving_host)"
    using first_start by (simp add: serving_host_def prod_eq_iff)
  with reachable.fresh show ?thesis
    unfolding fresh_host_def by (rule reachable.start)
qed

lemma dev1_host_disk:
  "disk dev1_host =
     Some (Json \<lparr>Initialized = True, InitializedAt = Some 9, InstanceType = ''t3.large'',
                  StorageType = ''ebs-only'', StorageDevice = [], PackagesInstalled = True,
                  BaseClusterReady = True, RegistryRunning = True,
                  Clusters = Some [''kind'' \<mapsto>
                    \<lparr>Status = ''running'', Created = Some 7, Type = ''infrastructure'',
                     KubeVirt = False\<rparr>,
                    ''dev1'' \<mapsto>
                    \<lparr>Status = ''running'', Created = Some (length (trace serving_host) + 1),
                     Type = ''development'', KubeVirt = False\<rparr>]\<rparr>)"
  by (simp add: dev1_host_def dev1_def quiet_def handleCreateCluster_def state_defs tool_defs
      serving_host_disk Let_def)

section \<open>Properties of the specification\<close>








text \<open>
  C4: a creation request for a name that the loaded state already holds is answered
  with 409 Conflict, and the world is as it was: no call of the adapter, no write, the
  stored entry untouched. (A request with an empty name is refused before the state is
  looked at, and in no world reached from a fresh host is the empty name a key of the
  cluster map: see \<open>reachable_no_empty_name\<close>.)
\<close>

theorem create_existing_conflict:
  assumes "Name req \<noteq> []" and "Load e w = Inr s"
    and "lookup (Clusters s) (Name req) = Some info"
  shows "handleCreateCluster e (Some req) w =
           (http_Error (''Cluster '' @ Name req @ '' already exists'') None 409, w)"
  using assms by (simp add: handleCreateCluster_def)

theorem create_existing_conflict_witness:
  "Name dev1 \<noteq> []
   \<and> (\<exists>s info. Load quiet dev1_host = Inr s \<and> lookup (Clusters s) (Name dev1) = Some info)
   \<and> fst (handleCreateCluster quiet (Some dev1) serving_host) =
       Respond 201 (CreateBody \<lparr>Name_resp = ''dev1'', Status_resp = ''running'',
         Created_resp = None, Type_resp = ''development'', KubeVirt_resp = False\<rparr>)
   \<and> handleCreateCluster quiet (Some dev1) dev1_host =
       (http_Error ''Cluster dev1 already exists'' None 409, dev1_host)"
proof -
  have n: "Name dev1 \<noteq> []" by (simp add: dev1_def)
  have "\<exists>s info. Load quiet dev1_host = Inr s \<and> lookup (Clusters s) (Name dev1) = Some info"
    by (simp add: quiet_def dev1_def state_defs dev1_host_disk)
  then obtain s info where s: "Load quiet dev1_host = Inr s"
    "lookup (Clusters s) (Name dev1) = Some info" by blast
  have first: "fst (handleCreateCluster quiet (Some dev1) serving_host) =
       Respond 201 (CreateBody \<lparr>Name_resp = ''dev1'', Status_resp = ''running'',
         Created_resp = None, Type_resp = ''development'', KubeVirt_resp = False\<rparr>)"
    by (simp add: dev1_def quiet_def handleCreateCluster_def state_defs tool_defs
        serving_host_disk Let_def)
  from create_existing_conflict [OF n s] n s first show ?thesis
    by (auto simp: dev1_def)
qed

text \<open>
  C5: a deletion request for the reserved cluster \<open>kind\<close> is always answered with 403
  Forbidden, and the world is as it was: no call of the adapter, no write.
\<close>

theorem delete_reserved_forbidden:
  "handleDeleteCluster e ''kind'' w =
     (http_Error ''Cannot delete infrastructure cluster'' None 403, w)"
  by (simp add: handleDeleteCluster_def)

text \<open>
  C6: when the name is not the reserved one and the adapter's delete succeeds, the
  request is answered with success whatever becomes of the removal from the state
  file; a failed removal leaves one line in the log and nothing else.
\<close>

theorem delete_succeeds_despite_state_failure:
  assumes "name \<noteq> ''kind''" and "\<not> tool_fails e (trace w) (KindDeleteCluster name)"
  shows "fst (handleDeleteCluster e name w) =
           Respond 200 (MessageBody (''Cluster '' @ name @ '' deleted''))
       \<and> logs (snd (handleDeleteCluster e name w)) =
           (case fst (RemoveCluster e name (snd (DeleteCluster e name w))) of
              Err err \<Rightarrow> logs w @ [PrintErr ''Failed to remove cluster from state'' err]
            | _ \<Rightarrow> logs w)"
  using assms
  by (simp add: handleDeleteCluster_def DeleteCluster_def run_tool_def split_beta
      split: result.split)

theorem delete_succeeds_despite_state_failure_witness:
  "''dev1'' \<noteq> ''kind''
   \<and> \<not> tool_fails disk_read_only (trace dev1_host) (KindDeleteCluster ''dev1'')
   \<and> fst (RemoveCluster disk_read_only ''dev1''
            (snd (DeleteCluster disk_read_only ''dev1'' dev1_host))) =
       Err (Wrap ''failed to write state file'' WriteFailure)
   \<and> fst (handleDeleteCluster disk_read_only ''dev1'' dev1_host) =
       Respond 200 (MessageBody ''Cluster dev1 deleted'')
   \<and> logs (snd (handleDeleteCluster disk_read_only ''dev1'' dev1_host)) =
       logs dev1_host @ [PrintErr ''Failed to remove cluster from state''
                           (Wrap ''failed to write state file'' WriteFailure)]"
proof -
  have h1: "''dev1'' \<noteq> ''kind''" by simp
  have h2: "\<not> tool_fails disk_read_only (trace dev1_host) (KindDeleteCluster ''dev1'')"
    by (simp add: disk_read_only_def quiet_def)
  have h3: "fst (RemoveCluster disk_read_only ''dev1''
            (snd (DeleteCluster disk_read_only ''dev1'' dev1_host))) =
       Err (Wrap ''failed to write state file'' WriteFailure)"
    by (simp add: disk_read_only_def quiet_def state_defs tool_defs dev1_host_disk)
  from delete_succeeds_despite_state_failure [OF h1 h2] h2 h3 show ?thesis by simp
qed

text \<open>
  C7: \<open>Load\<close> returns the fresh zero-value state, not an error, when there is no state
  file; when the file is read and decodes it returns the decoded state (with an
  allocated cluster map); when the file is read and does not decode it returns the
  parse error. A file that is there is never replaced by a fresh state.
\<close>

theorem Load_contract:
  "Load e (w\<lparr>disk := None\<rparr>) =
     Inr \<lparr>Initialized = False, InitializedAt = None, InstanceType = [], StorageType = [],
          StorageDevice = [], PackagesInstalled = False, BaseClusterReady = False,
          RegistryRunning = False, Clusters = Some Map.empty\<rparr>
   \<and> Load e (w\<lparr>disk := Some (Json s)\<rparr>) =
       (if read_fails e (trace w) then Inl (Wrap ''failed to read state file'' ReadFailure)
        else Inr (s\<lparr>Clusters := Some (case Clusters s of None \<Rightarrow> Map.empty | Some m \<Rightarrow> m)\<rparr>))
   \<and> Load e (w\<lparr>disk := Some Garbage\<rparr>) =
       (if read_fails e (trace w) then Inl (Wrap ''failed to read state file'' ReadFailure)
        else Inl (Wrap ''failed to parse state file'' SyntaxError))"
  by (cases "Clusters s") (simp_all add: state_defs)

text \<open>
  C8: in every world reached from a fresh host by starts of the process and requests
  to the serving process, a loaded state that says initialized has exactly one cluster
  of type infrastructure, named \<open>kind\<close>; while the process serves, an infrastructure
  entry found after a creation request was there, the same, before it, so only the
  initializer creates one; and deletion is refused for the name \<open>kind\<close> and for no
  other.
\<close>

theorem infrastructure_cluster_invariant:
  assumes "reachable p w"
  shows "(\<forall>e s. Load e w = Inr s \<and> Initialized s \<longrightarrow>
            {n. \<exists>c. lookup (Clusters s) n = Some c \<and> Type c = ''infrastructure''} = {''kind''})
       \<and> (p = Up \<longrightarrow>
            (\<forall>e r e' s' n c.
               Load e' (snd (handleCreateCluster e r w)) = Inr s' \<and>
               lookup (Clusters s') n = Some c \<and> Type c = ''infrastructure'' \<longrightarrow>
               (\<exists>e0 s. Load e0 w = Inr s \<and> lookup (Clusters s) n = Some c)))
       \<and> (\<forall>e name.
            (fst (handleDeleteCluster e name w) =
               http_Error ''Cannot delete infrastructure cluster'' None 403) = (name = ''kind''))"
proof (intro conjI allI impI)
  fix e s
  assume "Load e w = Inr s \<and> Initialized s"
  then have l: "Load e w = Inr s" and i: "Initialized s" by simp_all
  have ok: "store_ok (disk w)" using reachable_invariant [OF assms] by simp
  have ro: "reserved_only s" using Load_reserved_only [OF ok l] .
  have "lookup (Clusters s) ''kind'' \<noteq> None" using Load_base_present [OF ok l i] .
  then obtain c where c: "lookup (Clusters s) ''kind'' = Some c" by auto
  with ro have "Type c = ''infrastructure''" by (simp add: reserved_only_def)
  with c ro show "{n. \<exists>c. lookup (Clusters s) n = Some c \<and> Type c = ''infrastructure''} = {''kind''}"
    by (auto simp: reserved_only_def)
next
  fix e r e' s' n c
  assume "p = Up"
    and "Load e' (snd (handleCreateCluster e r w)) = Inr s' \<and>
         lookup (Clusters s') n = Some c \<and> Type c = ''infrastructure''"
  with reachable_invariant [OF assms] create_keeps_infrastructure [of w e' e r s' n c]
  show "\<exists>e0 s. Load e0 w = Inr s \<and> lookup (Clusters s) n = Some c" by simp
next
  fix e name
  show "(fst (handleDeleteCluster e name w) =
           http_Error ''Cannot delete infrastructure cluster'' None 403) = (name = ''kind'')"
    by (simp add: handleDeleteCluster_def split_beta split: option.split result.split)
qed

theorem infrastructure_cluster_invariant_witness:
  "reachable Up serving_host
   \<and> (\<exists>s. Load quiet serving_host = Inr s \<and> Initialized s
          \<and> {n. \<exists>c. lookup (Clusters s) n = Some c \<and> Type c = ''infrastructure''} = {''kind''})
   \<and> (\<exists>s. Load quiet dev1_host = Inr s \<and> Initialized s
          \<and> lookup (Clusters s) ''dev1'' \<noteq> None
          \<and> {n. \<exists>c. lookup (Clusters s) n = Some c \<and> Type c = ''infrastructure''} = {''kind''})"
proof -
  have r: "reachable Up serving_host" by (rule serving_host_reachable)
  have "handleCreateCluster quiet (Some dev1) serving_host =
          (fst (handleCreateCluster quiet (Some dev1) serving_host), dev1_host)"
    by (simp add: dev1_host_def)
  with r have r': "reachable Up dev1_host" by (rule reachable.create)
  have "\<exists>s. Load quiet serving_host = Inr s \<and> Initialized s"
    by (simp add: quiet_def state_defs serving_host_disk)
  then obtain s where s: "Load quiet serving_host = Inr s" "Initialized s" by blast
  have "\<exists>s. Load quiet dev1_host = Inr s \<and> Initialized s \<and> lookup (Clusters s) ''dev1'' \<noteq> None"
    by (simp add: quiet_def state_defs dev1_host_disk)
  then obtain s' where s': "Load quiet dev1_host = Inr s'" "Initialized s'"
    "lookup (Clusters s') ''dev1'' \<noteq> None" by blast
  have i: "{n. \<exists>c. lookup (Clusters s) n = Some c \<and> Type c = ''infrastructure''} = {''kind''}"
    using conjunct1 [OF infrastructure_cluster_invariant [OF r], rule_format, of quiet s] s
    by simp
  have i': "{n. \<exists>c. lookup (Clusters s') n = Some c \<and> Type c = ''infrastructure''} = {''kind''}"
    using conjunct1 [OF infrastructure_cluster_invariant [OF r'], rule_format, of quiet s'] s'
    by simp
  have "\<exists>s. Load quiet serving_host = Inr s \<and> Initialized s
          \<and> {n. \<exists>c. lookup (Clusters s) n = Some c \<and> Type c = ''infrastructure''} = {''kind''}"
    using s i by (intro exI [of _ s]) simp
  moreover have "\<exists>s. Load quiet dev1_host = Inr s \<and> Initialized s
          \<and> lookup (Clusters s) ''dev1'' \<noteq> None
          \<and> {n. \<exists>c. lookup (Clusters s) n = Some c \<and> Type c = ''infrastructure''} = {''kind''}"
    using s' i' by (intro exI [of _ s']) simp
  ultimately show ?thesis using r by simp
qed

text \<open>
  C9: when the adapter has created the cluster and the update of the state file then
  fails, the request is still answered 201 Created with the cluster body, the failure
  is one line of the log, and a later request for that cluster finds nothing: it is
  answered 404, or 500 when the state file cannot be loaded.
\<close>

theorem create_succeeds_despite_state_failure:
  assumes "Name req \<noteq> []" and "Load e w = Inr s"
    and "lookup (Clusters s) (Name req) = None"
    and "\<not> tool_fails e (trace w) (KindCreateCluster (Name req) True)"
    and "fst (UpdateCluster e (Name req) ''running''
               (if Name req = ''kind'' then ''infrastructure'' else ''development'')
               (KubeVirt_req req) (snd (CreateCluster e (Name req) True w))) = Err err"
  shows "fst (handleCreateCluster e (Some req) w) =
           Respond 201
             (CreateBody \<lparr>Name_resp = Name req, Status_resp = ''running'',
                          Created_resp = None,
                          Type_resp = (if Name req = ''kind'' then ''infrastructure''
                                       else ''development''),
                          KubeVirt_resp = KubeVirt_req req\<rparr>)
       \<and> logs (snd (handleCreateCluster e (Some req) w)) =
           logs w @ [PrintErr ''Failed to update cluster state'' err]
       \<and> (handleGetCluster e' (Name req) (snd (handleCreateCluster e (Some req) w)) =
             http_Error ''Cluster not found'' None 404
          \<or> handleGetCluster e' (Name req) (snd (handleCreateCluster e (Some req) w)) =
             http_Error ''Failed to load host state'' None 500)"
proof -
  let ?ty = "if Name req = ''kind'' then ''infrastructure'' else ''development''"
  let ?w1 = "snd (CreateCluster e (Name req) True w)"
  let ?up = "UpdateCluster e (Name req) ''running'' ?ty (KubeVirt_req req) ?w1"
  let ?w' = "snd (handleCreateCluster e (Some req) w)"
  have w': "?w' = log_PrintErr ''Failed to update cluster state'' err (snd ?up)"
    and resp: "fst (handleCreateCluster e (Some req) w) =
      Respond 201 (CreateBody \<lparr>Name_resp = Name req, Status_resp = ''running'',
                          Created_resp = None, Type_resp = ?ty,
                          KubeVirt_resp = KubeVirt_req req\<rparr>)"
    using assms
    by (simp_all add: handleCreateCluster_def CreateCluster_def run_tool_def split_beta Let_def)
  have dk: "disk ?w' = disk w \<or> disk ?w' = Some Garbage"
    using UpdateCluster_effect [of e ?w1 "Name req" "''running''" ?ty "KubeVirt_req req"]
      assms(5) w'
    by auto
  have lg: "logs ?w' = logs w @ [PrintErr ''Failed to update cluster state'' err]"
    using w' by (simp add: CreateCluster_def)
  have get: "handleGetCluster e' (Name req) ?w' = http_Error ''Cluster not found'' None 404
        \<or> handleGetCluster e' (Name req) ?w' = http_Error ''Failed to load host state'' None 500"
  proof (cases "Load e' ?w'")
    case (Inl a)
    then show ?thesis by (simp add: handleGetCluster_def)
  next
    case (Inr s')
    with dk Load_Garbage [of ?w' e' s'] have "disk ?w' = disk w" by auto
    from Load_same_disk [OF this assms(2) Inr] have "s' = s" .
    with Inr assms(3) show ?thesis by (simp add: handleGetCluster_def)
  qed
  from resp lg get show ?thesis by simp
qed

theorem create_succeeds_despite_state_failure_witness:
  "Name dev1 \<noteq> []
   \<and> (\<exists>s. Load disk_read_only serving_host = Inr s \<and> lookup (Clusters s) (Name dev1) = None)
   \<and> \<not> tool_fails disk_read_only (trace serving_host) (KindCreateCluster (Name dev1) True)
   \<and> fst (handleCreateCluster disk_read_only (Some dev1) serving_host) =
       Respond 201 (CreateBody \<lparr>Name_resp = ''dev1'', Status_resp = ''running'',
         Created_resp = None, Type_resp = ''development'', KubeVirt_resp = False\<rparr>)
   \<and> logs (snd (handleCreateCluster disk_read_only (Some dev1) serving_host)) =
       logs serving_host @ [PrintErr ''Failed to update cluster state''
                              (Wrap ''failed to write state file'' WriteFailure)]
   \<and> handleGetCluster quiet ''dev1''
         (snd (handleCreateCluster disk_read_only (Some dev1) serving_host)) =
       http_Error ''Cluster not found'' None 404"
proof -
  have h1: "Name dev1 \<noteq> []" by (simp add: dev1_def)
  have "\<exists>s. Load disk_read_only serving_host = Inr s \<and> lookup (Clusters s) (Name dev1) = None"
    by (simp add: disk_read_only_def quiet_def dev1_def state_defs serving_host_disk)
  then obtain s where h2: "Load disk_read_only serving_host = Inr s"
    and h3: "lookup (Clusters s) (Name dev1) = None" by blast
  have h4: "\<not> tool_fails disk_read_only (trace serving_host) (KindCreateCluster (Name dev1) True)"
    by (simp add: disk_read_only_def quiet_def)
  have h5: "fst (UpdateCluster disk_read_only (Name dev1) ''running''
               (if Name dev1 = ''kind'' then ''infrastructure'' else ''development'')
               (KubeVirt_req dev1) (snd (CreateCluster disk_read_only (Name dev1) True serving_host)))
             = Err (Wrap ''failed to write state file'' WriteFailure)"
    by (simp add: disk_read_only_def quiet_def dev1_def state_defs tool_defs serving_host_disk)
  have g: "handleGetCluster quiet ''dev1''
         (snd (handleCreateCluster disk_read_only (Some dev1) serving_host)) =
       http_Error ''Cluster not found'' None 404"
    by (simp add: handleGetCluster_def handleCreateCluster_def disk_read_only_def quiet_def
        dev1_def state_defs tool_defs serving_host_disk Let_def)
  from create_succeeds_despite_state_failure [OF h1 h2 h3 h4 h5, of quiet] h1 h2 h3 h4 g
  show ?thesis by (auto simp: dev1_def)
qed

text \<open>
  C10: a state file that decodes to a state with a nil cluster map (no \<open>clusters\<close>
  field, or \<open>null\<close>) is loaded with an allocated, empty map; \<open>Load\<close> never returns a
  nil map, so the insertion of \<open>UpdateCluster\<close> and the deletion of \<open>RemoveCluster\<close>
  never panic.
\<close>

theorem Load_allocates_cluster_map:
  "Load e (w\<lparr>disk := Some (Json (s\<lparr>Clusters := None\<rparr>))\<rparr>) =
     (if read_fails e (trace w) then Inl (Wrap ''failed to read state file'' ReadFailure)
      else Inr (s\<lparr>Clusters := Some Map.empty\<rparr>))
   \<and> (\<forall>s'. Load e w \<noteq> Inr (s'\<lparr>Clusters := None\<rparr>))
   \<and> fst (UpdateCluster e name status clusterType kubevirt w) \<noteq> Panic
   \<and> fst (RemoveCluster e name w) \<noteq> Panic"
proof (intro conjI allI)
  show "Load e (w\<lparr>disk := Some (Json (s\<lparr>Clusters := None\<rparr>))\<rparr>) =
     (if read_fails e (trace w) then Inl (Wrap ''failed to read state file'' ReadFailure)
      else Inr (s\<lparr>Clusters := Some Map.empty\<rparr>))"
    by (simp add: state_defs)
next
  fix s'
  show "Load e w \<noteq> Inr (s'\<lparr>Clusters := None\<rparr>)"
    using Load_Clusters_not_nil [of e w "s'\<lparr>Clusters := None\<rparr>"] by auto
qed simp_all

end
